theory Spec2Isabelle
  imports Main "HOL-Library.AList"
begin

section \<open>JavaScript values and errors\<close>

text \<open>
  Every failure in the repository is a JavaScript \<^verbatim>\<open>Error\<close> carrying a message; a
  \<^verbatim>\<open>throw\<close> (or a rejected promise) is the left injection of a sum. The
  \<^verbatim>\<open>catch (error) { throw new Error(`prefix: ${error.message}`) }\<close> idiom, used by
  almost every method, is \<open>wrap\<close>.
\<close>

datatype error = Error string

fun message :: "error \<Rightarrow> string" where
  "message (Error m) = m"

definition wrap :: "string \<Rightarrow> error \<Rightarrow> error" where
  "wrap prefix e = Error (prefix @ message e)"


text \<open>
  \<^verbatim>\<open>String.prototype.split('_')\<close>: the pieces between the separators; a string
  without the separator is one piece, the empty string is one empty piece.
\<close>

fun split_on :: "char \<Rightarrow> string \<Rightarrow> string list" where
  "split_on c [] = [[]]"
| "split_on c (x # xs) =
     (if x = c then [] # split_on c xs
      else (case split_on c xs of [] \<Rightarrow> [[x]] | p # ps \<Rightarrow> (x # p) # ps))"

text \<open>
  A value of a request body: the JSON values an order-parameter object can hold, and
  \<^verbatim>\<open>undefined\<close> for a property that is absent. Numbers are the integers (a quantity, a
  price in the smallest unit); \<^verbatim>\<open>NaN\<close> and fractions are outside the model.
\<close>

datatype jsval = Undefined | Null | Str string | Num int | Bool bool


type_synonym params = "(string \<times> jsval) list"


section \<open>The kiteconnect library and the remote broker\<close>

text \<open>
  The calls a \<^verbatim>\<open>ZerodhaBroker\<close> issues to the kiteconnect library: REST calls through
  \<^verbatim>\<open>this.kc\<close> and streaming calls through \<^verbatim>\<open>this.ticker\<close>.
\<close>

datatype call =
    KcGetProfile "string option"
  | KcPlaceOrder jsval params
  | TickerConnect
  | TickerSubscribe "int list"
  | TickerSetMode "int list"
  | TickerUnsubscribe "int list"
  | TickerDisconnect

text \<open>
  The library and the service behind it are outside the repository. Their behaviour is a
  parameter: what the profile request answers under an access token, what an order
  request answers, whether the methods of a ticker built by \<^verbatim>\<open>new KiteTicker\<close> throw,
  and the clock that \<^verbatim>\<open>new Date()\<close> reads, which stands still during one operation
  of the service.
\<close>

record env =
  now :: nat
  kc_getProfile :: "string option \<Rightarrow> string + string"
  kc_placeOrder :: "params \<Rightarrow> string + string"
  ticker_fault :: "string option"

text \<open>
  A \<^verbatim>\<open>KiteTicker\<close> object: the credentials it was built with, the events that have a
  handler, and its fault, the message of the exception its methods throw (none for a
  ticker that works).
\<close>

record ticker =
  api_key :: string
  access_token :: "string option"
  handlers :: "string list"
  fault :: "string option"

section \<open>TradingSession\<close>

text \<open>
  A document of the \<^verbatim>\<open>TradingSession\<close> collection, with the fields the service
  reads. A user id is the hexadecimal text of an ObjectId; \<open>expiresAt\<close> and the clock
  are milliseconds. The collection is a list of documents, and its queries and updates
  always answer: a database that fails is outside the model.
\<close>

record session =
  userId :: string
  brokerType :: string
  accessToken :: string
  expiresAt :: nat
  isActive :: bool

text \<open>
  \<^verbatim>\<open>findActiveSession(userId, brokerType)\<close>, TradingSession model lines 65 to 72:
  \<^verbatim>\<open>findOne\<close> with the filter
  \<^verbatim>\<open>{ userId, brokerType, isActive: true, expiresAt: { $gt: new Date() } }\<close>.
\<close>

definition findActiveSession :: "nat \<Rightarrow> string \<Rightarrow> string \<Rightarrow> session list \<Rightarrow> session option" where
  "findActiveSession t u b ss =
     find (\<lambda>x. userId x = u \<and> brokerType x = b \<and> isActive x \<and> t < expiresAt x) ss"

text \<open>
  The static \<^verbatim>\<open>cleanupExpiredSessions()\<close> of the model, lines 75 to 80:
  \<^verbatim>\<open>updateMany({ expiresAt: { $lte: new Date() } }, { $set: { isActive: false } })\<close>.
\<close>

definition expireSessions :: "nat \<Rightarrow> session list \<Rightarrow> session list" where
  "expireSessions t ss = map (\<lambda>x. if expiresAt x \<le> t then x\<lparr>isActive := False\<rparr> else x) ss"

section \<open>ZerodhaBroker\<close>

record config =
  apiKey :: string
  apiSecret :: string

text \<open>
  The fields of \<^verbatim>\<open>ZerodhaBroker\<close> (with \<^verbatim>\<open>isConnected\<close> and \<^verbatim>\<open>config\<close> of
  \<^verbatim>\<open>BaseBroker\<close>). \<open>kc_token\<close> is the access token held by \<^verbatim>\<open>this.kc\<close>.
  \<open>subscribedInstruments\<close> is a JavaScript \<^verbatim>\<open>Set\<close>: a list without duplicates in
  insertion order. \<open>io\<close> is not a field of the class: it records, oldest first, the
  library calls this instance has issued, so that theorems can speak of them.
\<close>

record broker =
  config :: config
  isConnected :: bool
  kc_token :: "string option"
  ticker :: "ticker option"
  accessToken :: "string option"
  subscribedInstruments :: "int list"
  io :: "call list"

definition new_ZerodhaBroker :: "config \<Rightarrow> broker" where
  "new_ZerodhaBroker c =
     \<lparr>config = c, isConnected = False, kc_token = None, ticker = None,
      accessToken = None, subscribedInstruments = [], io = []\<rparr>"

text \<open>\<^verbatim>\<open>!this.accessToken\<close>: null and the empty string are falsy.\<close>

definition token_set :: "string option \<Rightarrow> bool" where
  "token_set t = (case t of None \<Rightarrow> False | Some x \<Rightarrow> x \<noteq> [])"

text \<open>\<^verbatim>\<open>Set.prototype.add\<close>.\<close>

definition set_add :: "int \<Rightarrow> int list \<Rightarrow> int list" where
  "set_add x xs = (if x \<in> set xs then xs else xs @ [x])"

text \<open>
  A method call on the ticker either throws the ticker's fault or is issued, and then it
  is recorded in \<open>io\<close>.
\<close>

definition ticker_call :: "call \<Rightarrow> ticker \<Rightarrow> broker \<Rightarrow> error + broker" where
  "ticker_call c t b =
     (case fault t of
        Some m \<Rightarrow> Inl (Error m)
      | None \<Rightarrow> Inr (b\<lparr>io := io b @ [c]\<rparr>))"

text \<open>
  \<^verbatim>\<open>disconnect()\<close>, ZerodhaBroker.js lines 36 to 51. The whole body is inside
  \<^verbatim>\<open>try\<close>; an exception of \<^verbatim>\<open>this.ticker.disconnect()\<close> leaves before any field is
  assigned and is thrown again, wrapped.
\<close>

definition disconnect :: "broker \<Rightarrow> (error + unit) \<times> broker" where
  "disconnect b =
     (case ticker b of
        None \<Rightarrow> (Inr (), b\<lparr>isConnected := False, accessToken := None\<rparr>)
      | Some t \<Rightarrow>
          (case ticker_call TickerDisconnect t b of
             Inl e \<Rightarrow> (Inl (wrap ''Failed to disconnect from Zerodha: '' e), b)
           | Inr b1 \<Rightarrow>
               (Inr (), b1\<lparr>ticker := None, isConnected := False, accessToken := None\<rparr>)))"

text \<open>\<^verbatim>\<open>setAccessToken(accessToken)\<close>, lines 53 to 56.\<close>

definition setAccessToken :: "string option \<Rightarrow> broker \<Rightarrow> broker" where
  "setAccessToken tok b = b\<lparr>accessToken := tok, kc_token := tok\<rparr>"

text \<open>
  \<^verbatim>\<open>connect()\<close>, lines 16 to 34, in the two parts its one \<^verbatim>\<open>await\<close> separates.
  \<open>connect_begin\<close> runs up to the profile request (the connect handshake), which it
  issues; \<open>connect_end\<close> runs when the answer arrives.
\<close>

definition connect_begin :: "broker \<Rightarrow> (error + unit) \<times> broker" where
  "connect_begin b =
     (if \<not> token_set (accessToken b)
      then (Inl (wrap ''Failed to connect to Zerodha: ''
                  (Error ''Access token not set. Please authenticate first.'')),
            b\<lparr>isConnected := False\<rparr>)
      else (Inr (), b\<lparr>kc_token := accessToken b,
                       io := io b @ [KcGetProfile (accessToken b)]\<rparr>))"

definition connect_end :: "string + string \<Rightarrow> broker \<Rightarrow> (error + string) \<times> broker" where
  "connect_end answer b =
     (case answer of
        Inr profile \<Rightarrow> (Inr profile, b\<lparr>isConnected := True\<rparr>)
      | Inl m \<Rightarrow> (Inl (wrap ''Failed to connect to Zerodha: '' (Error m)),
                  b\<lparr>isConnected := False\<rparr>))"



text \<open>
  \<^verbatim>\<open>connectWebSocket()\<close>, lines 127 to 166: the token check, a new ticker in
  \<^verbatim>\<open>this.ticker\<close> (an earlier one is dropped, not disconnected), five handlers, then
  \<^verbatim>\<open>this.ticker.connect()\<close>. Nothing here reads \<^verbatim>\<open>subscribedInstruments\<close>.
\<close>

definition connectWebSocket :: "env \<Rightarrow> broker \<Rightarrow> (error + unit) \<times> broker" where
  "connectWebSocket e b =
     (if \<not> token_set (accessToken b)
      then (Inl (Error ''Access token not set for WebSocket connection''), b)
      else
        (let t = \<lparr>api_key = apiKey (config b), access_token = accessToken b,
                  handlers = [], fault = ticker_fault e\<rparr>;
             b1 = b\<lparr>ticker := Some t\<rparr>
         in case fault t of
              Some m \<Rightarrow> (Inl (wrap ''Failed to connect WebSocket: '' (Error m)), b1)
            | None \<Rightarrow>
                (let t1 = t\<lparr>handlers := [''ticks'', ''connect'', ''disconnect'', ''error'', ''close'']\<rparr>;
                     b2 = b1\<lparr>ticker := Some t1\<rparr>
                 in case ticker_call TickerConnect t1 b2 of
                      Inl err \<Rightarrow> (Inl (wrap ''Failed to connect WebSocket: '' err), b2)
                    | Inr b3 \<Rightarrow> (Inr (), b3))))"

text \<open>
  The argument of \<^verbatim>\<open>subscribeToTicker\<close>: an array of instrument tokens, or one token,
  which \<^verbatim>\<open>Array.isArray(instruments) ? instruments : [instruments]\<close> puts in an array.
\<close>

datatype instruments = Array "int list" | Single int

fun instrumentsArray :: "instruments \<Rightarrow> int list" where
  "instrumentsArray (Array xs) = xs"
| "instrumentsArray (Single x) = [x]"

text \<open>
  \<^verbatim>\<open>subscribeToTicker(instruments)\<close>, lines 168 to 193. The guard on \<^verbatim>\<open>this.ticker\<close>
  is outside \<^verbatim>\<open>try\<close>. Inside: \<^verbatim>\<open>subscribe\<close>, \<^verbatim>\<open>setMode\<close>, then each token is
  added to the set.
\<close>

definition subscribeToTicker :: "instruments \<Rightarrow> broker \<Rightarrow> (error + int list) \<times> broker" where
  "subscribeToTicker ins b =
     (case ticker b of
        None \<Rightarrow> (Inl (Error ''WebSocket not connected''), b)
      | Some t \<Rightarrow>
          (let arr = instrumentsArray ins
           in case ticker_call (TickerSubscribe arr) t b of
                Inl err \<Rightarrow> (Inl (wrap ''Failed to subscribe to ticker: '' err), b)
              | Inr b1 \<Rightarrow>
                  (case ticker_call (TickerSetMode arr) t b1 of
                     Inl err \<Rightarrow> (Inl (wrap ''Failed to subscribe to ticker: '' err), b1)
                   | Inr b2 \<Rightarrow>
                       (Inr arr,
                        b2\<lparr>subscribedInstruments :=
                             foldl (\<lambda>s x. set_add x s) (subscribedInstruments b2) arr\<rparr>))))"

text \<open>\<^verbatim>\<open>getSubscribedInstruments()\<close>, lines 217 to 219.\<close>

definition getSubscribedInstruments :: "broker \<Rightarrow> int list" where
  "getSubscribedInstruments b = subscribedInstruments b"

section \<open>BrokerFactory\<close>

text \<open>
  \<^verbatim>\<open>String.prototype.toLowerCase\<close> on the ASCII letters (other characters are kept;
  letters beyond ASCII are outside the model).
\<close>

definition lower_char :: "char \<Rightarrow> char" where
  "lower_char c =
     (case map_of (zip ''ABCDEFGHIJKLMNOPQRSTUVWXYZ'' ''abcdefghijklmnopqrstuvwxyz'') c of
        None \<Rightarrow> c
      | Some d \<Rightarrow> d)"

definition toLowerCase :: "string \<Rightarrow> string" where
  "toLowerCase s = map lower_char s"

text \<open>\<^verbatim>\<open>BrokerFactory.createBroker(brokerType, config)\<close>, lines 5 to 17.\<close>

definition createBroker :: "string \<Rightarrow> config \<Rightarrow> error + broker" where
  "createBroker bt c =
     (if toLowerCase bt = ''zerodha'' then Inr (new_ZerodhaBroker c)
      else Inl (Error (''Unsupported broker type: '' @ bt)))"

section \<open>TradingService\<close>

text \<open>
  The service follows the server in \<^verbatim>\<open>server.js\<close>; line numbers are those of that
  file. The state the service works on: JavaScript objects are shared by reference, so \<open>heap\<close>
  holds every \<^verbatim>\<open>ZerodhaBroker\<close> object created so far, a reference is its index, and a
  new object goes to the end. \<open>activeBrokers\<close> is the \<^verbatim>\<open>Map\<close> from session key to
  broker, in insertion order. \<open>sessions\<close> is the \<^verbatim>\<open>TradingSession\<close> collection,
  \<open>console\<close> what \<^verbatim>\<open>console.error\<close> has printed, and \<open>process_env\<close> the
  \<^verbatim>\<open>KITE_API_KEY\<close> and \<^verbatim>\<open>KITE_API_SECRET\<close> of \<^verbatim>\<open>process.env\<close>.
\<close>

record service =
  heap :: "broker list"
  activeBrokers :: "(string \<times> nat) list"
  sessions :: "session list"
  console :: "string list"
  process_env :: config

text \<open>The template \<^verbatim>\<open>`${userId}_${brokerType}`\<close>.\<close>

definition sessionKey :: "string \<Rightarrow> string \<Rightarrow> string" where
  "sessionKey u bt = u @ ''_'' @ bt"

text \<open>\<^verbatim>\<open>getBrokerConfig(brokerType)\<close>, TradingService lines 629 to 639.\<close>

definition getBrokerConfig :: "service \<Rightarrow> string \<Rightarrow> error + config" where
  "getBrokerConfig s bt =
     (if bt = ''zerodha'' then Inr (process_env s)
      else Inl (Error (''Unsupported broker: '' @ bt)))"

text \<open>
  \<^verbatim>\<open>getBrokerInstance(userId, brokerType)\<close>, lines 417 to 449, is an \<^verbatim>\<open>async\<close>
  function with two \<^verbatim>\<open>await\<close>s: the session query, and \<^verbatim>\<open>broker.connect()\<close>, which
  itself waits for the profile request. JavaScript runs the code between two waits without
  interruption, and other calls may run while one waits. A call is therefore in one of
  these states, and \<open>gbi_step\<close> runs one uninterrupted part:
  \<^item> \<open>Call\<close>: invoked, nothing run yet;
  \<^item> \<open>AwaitSession\<close>: the cache had no entry, the session query is under way;
  \<^item> \<open>AwaitConnect\<close>: the broker object (the reference) is built, its token set and its
    profile request sent;
  \<^item> \<open>Settled\<close>: returned a broker reference, or threw.
\<close>

datatype gbi =
    Call string string
  | AwaitSession string string
  | AwaitConnect string string nat
  | Settled "error + nat"

definition gbi_fail :: "error \<Rightarrow> gbi" where
  "gbi_fail e = Settled (Inl (wrap ''Failed to get broker instance: '' e))"

fun gbi_step :: "env \<Rightarrow> gbi \<Rightarrow> service \<Rightarrow> gbi \<times> service" where
  "gbi_step e (Call u bt) s =
     (case map_of (activeBrokers s) (sessionKey u bt) of
        Some r \<Rightarrow> (Settled (Inr r), s)
      | None \<Rightarrow> (AwaitSession u bt, s))"
| "gbi_step e (AwaitSession u bt) s =
     (case findActiveSession (now e) u bt (sessions s) of
        None \<Rightarrow> (gbi_fail (Error (''No active '' @ bt @ '' session found'')), s)
      | Some sess \<Rightarrow>
          (case getBrokerConfig s bt of
             Inl err \<Rightarrow> (gbi_fail err, s)
           | Inr cfg \<Rightarrow>
               (case createBroker bt cfg of
                  Inl err \<Rightarrow> (gbi_fail err, s)
                | Inr b \<Rightarrow>
                    (let r = length (heap s) in
                     if bt = ''zerodha'' then
                       (case connect_begin (setAccessToken (Some (session.accessToken sess)) b) of
                          (Inl err, b1) \<Rightarrow> (gbi_fail err, s\<lparr>heap := heap s @ [b1]\<rparr>)
                        | (Inr _, b1) \<Rightarrow> (AwaitConnect u bt r, s\<lparr>heap := heap s @ [b1]\<rparr>))
                     else
                       (Settled (Inr r),
                        s\<lparr>heap := heap s @ [b],
                          activeBrokers := AList.update (sessionKey u bt) r (activeBrokers s)\<rparr>)))))"
| "gbi_step e (AwaitConnect u bt r) s =
     (let b = heap s ! r
      in case connect_end (kc_getProfile e (kc_token b)) b of
           (Inl err, b1) \<Rightarrow> (gbi_fail err, s\<lparr>heap := (heap s)[r := b1]\<rparr>)
         | (Inr _, b1) \<Rightarrow>
             (Settled (Inr r),
              s\<lparr>heap := (heap s)[r := b1],
                activeBrokers := AList.update (sessionKey u bt) r (activeBrokers s)\<rparr>))"
| "gbi_step e (Settled res) s = (Settled res, s)"

text \<open>
  One call run alone, from invocation to its result: the three parts one after the other,
  nothing else running in between. A call that settles early stays settled, and after
  three parts every call has settled, so \<open>pending\<close> is never the result.
\<close>

fun gbi_result :: "gbi \<Rightarrow> error + nat" where
  "gbi_result (Settled res) = res"
| "gbi_result _ = Inl (Error ''pending'')"

definition getBrokerInstance :: "env \<Rightarrow> string \<Rightarrow> string \<Rightarrow> service \<Rightarrow> (error + nat) \<times> service" where
  "getBrokerInstance e u bt s =
     (let (t1, s1) = gbi_step e (Call u bt) s;
          (t2, s2) = gbi_step e t1 s1;
          (t3, s3) = gbi_step e t2 s2
      in (gbi_result t3, s3))"

text \<open>
  Several calls in flight: a schedule names, step by step, the call whose next part runs.
  Two calls made in the same turn of the event loop (for instance by
  \<^verbatim>\<open>Promise.all\<close>) run their first parts back to back, before any answer arrives.
\<close>

fun run :: "env \<Rightarrow> nat list \<Rightarrow> gbi list \<Rightarrow> service \<Rightarrow> gbi list \<times> service" where
  "run e [] ts s = (ts, s)"
| "run e (i # sched) ts s =
     (if i < length ts
      then (case gbi_step e (ts ! i) s of (t1, s1) \<Rightarrow> run e sched (ts[i := t1]) s1)
      else run e sched ts s)"

text \<open>The connect handshakes performed so far: the profile requests of all brokers.\<close>

fun is_handshake :: "call \<Rightarrow> bool" where
  "is_handshake (KcGetProfile _) = True"
| "is_handshake _ = False"

definition handshakes :: "service \<Rightarrow> nat" where
  "handshakes s = length (filter is_handshake (concat (map io (heap s))))"

text \<open>The same call made \<open>n\<close> times, each after the one before has returned.\<close>

fun call_seq :: "env \<Rightarrow> nat \<Rightarrow> string \<Rightarrow> string \<Rightarrow> service \<Rightarrow> (error + nat) list \<times> service" where
  "call_seq e 0 u bt s = ([], s)"
| "call_seq e (Suc n) u bt s =
     (case getBrokerInstance e u bt s of
        (res, s1) \<Rightarrow> (case call_seq e n u bt s1 of (rs, s2) \<Rightarrow> (res # rs, s2)))"









text \<open>
  The methods of the service that work on a broker: each first obtains the broker with
  \<open>getBrokerInstance\<close>, then calls the broker's method on the object the reference
  names; every exception is thrown again with the method's prefix.
\<close>

definition on_broker ::
  "nat \<Rightarrow> (broker \<Rightarrow> (error + 'a) \<times> broker) \<Rightarrow> service \<Rightarrow> (error + 'a) \<times> service" where
  "on_broker r f s =
     (case f (heap s ! r) of (res, b1) \<Rightarrow> (res, s\<lparr>heap := (heap s)[r := b1]\<rparr>))"

definition rethrow :: "string \<Rightarrow> (error + 'a) \<times> service \<Rightarrow> (error + 'a) \<times> service" where
  "rethrow prefix x = (case x of (Inl err, s) \<Rightarrow> (Inl (wrap prefix err), s) | (Inr v, s) \<Rightarrow> (Inr v, s))"


text \<open>\<^verbatim>\<open>connectWebSocket(userId, brokerType)\<close> of the service, lines 521 to 528.\<close>

definition service_connectWebSocket ::
  "env \<Rightarrow> string \<Rightarrow> string \<Rightarrow> service \<Rightarrow> (error + unit) \<times> service" where
  "service_connectWebSocket e u bt s =
     rethrow ''Failed to connect WebSocket: ''
       (case getBrokerInstance e u bt s of
          (Inl err, s1) \<Rightarrow> (Inl err, s1)
        | (Inr r, s1) \<Rightarrow> on_broker r (connectWebSocket e) s1)"

text \<open>\<^verbatim>\<open>subscribeToTicker(userId, brokerType, instruments)\<close> of the service, lines 530 to 537.\<close>

definition service_subscribeToTicker ::
  "env \<Rightarrow> string \<Rightarrow> string \<Rightarrow> instruments \<Rightarrow> service \<Rightarrow> (error + int list) \<times> service" where
  "service_subscribeToTicker e u bt ins s =
     rethrow ''Failed to subscribe to ticker: ''
       (case getBrokerInstance e u bt s of
          (Inl err, s1) \<Rightarrow> (Inl err, s1)
        | (Inr r, s1) \<Rightarrow> on_broker r (subscribeToTicker ins) s1)"

text \<open>
  \<^verbatim>\<open>disconnectBroker(userId, brokerType)\<close>, lines 583 to 604: the cached broker, if
  any, is disconnected and removed; then the sessions of the key are marked inactive.
\<close>

definition disconnectBroker :: "string \<Rightarrow> string \<Rightarrow> service \<Rightarrow> (error + unit) \<times> service" where
  "disconnectBroker u bt s =
     rethrow ''Failed to disconnect broker: ''
       (case (case map_of (activeBrokers s) (sessionKey u bt) of
                None \<Rightarrow> (Inr (), s)
              | Some r \<Rightarrow>
                  (case on_broker r disconnect s of
                     (Inl err, s1) \<Rightarrow> (Inl err, s1)
                   | (Inr _, s1) \<Rightarrow>
                       (Inr (), s1\<lparr>activeBrokers := AList.delete (sessionKey u bt) (activeBrokers s1)\<rparr>))) of
          (Inl err, s1) \<Rightarrow> (Inl err, s1)
        | (Inr _, s1) \<Rightarrow>
            (Inr (),
             s1\<lparr>sessions :=
                  map (\<lambda>x. if userId x = u \<and> brokerType x = bt \<and> isActive x
                            then x\<lparr>isActive := False\<rparr> else x) (sessions s1)\<rparr>))"

text \<open>
  \<^verbatim>\<open>cleanupExpiredSessions()\<close> of the service (the sweep), lines 607 to 626. The loop
  visits the entries of the map in insertion order; an entry is deleted only while it is
  the one being visited, so the entries visited are those present when the loop starts.
  \<^verbatim>\<open>const [userId, brokerType] = key.split('_')\<close> takes the first two pieces; a key
  without \<^verbatim>\<open>_\<close> (which \<open>getBrokerInstance\<close> never stores) has no broker type and
  matches no session. Nothing inside the loop catches: an exception of
  \<^verbatim>\<open>broker.disconnect()\<close> leaves the loop.
\<close>

definition session_of_key :: "nat \<Rightarrow> string \<Rightarrow> session list \<Rightarrow> session option" where
  "session_of_key t key ss =
     (case split_on CHR ''_'' key of
        u # bt # _ \<Rightarrow> findActiveSession t u bt ss
      | _ \<Rightarrow> None)"

fun sweep_loop :: "env \<Rightarrow> (string \<times> nat) list \<Rightarrow> service \<Rightarrow> (error + unit) \<times> service" where
  "sweep_loop e [] s = (Inr (), s)"
| "sweep_loop e ((key, r) # rest) s =
     (case session_of_key (now e) key (sessions s) of
        Some _ \<Rightarrow> sweep_loop e rest s
      | None \<Rightarrow>
          (case on_broker r disconnect s of
             (Inl err, s1) \<Rightarrow> (Inl err, s1)
           | (Inr _, s1) \<Rightarrow>
               sweep_loop e rest (s1\<lparr>activeBrokers := AList.delete key (activeBrokers s1)\<rparr>)))"

text \<open>
  The value the sweep returns: \<^verbatim>\<open>{ success: true }\<close>, or \<^verbatim>\<open>undefined\<close> when the
  \<^verbatim>\<open>catch\<close> block ran (it prints the error and returns nothing).
\<close>

datatype sweep_value = Success | NoValue

definition cleanupExpiredSessions :: "env \<Rightarrow> service \<Rightarrow> (error + sweep_value) \<times> service" where
  "cleanupExpiredSessions e s =
     (let s0 = s\<lparr>sessions := expireSessions (now e) (sessions s)\<rparr>
      in case sweep_loop e (activeBrokers s0) s0 of
           (Inl err, s1) \<Rightarrow>
             (Inr NoValue,
              s1\<lparr>console := console s1 @ [''Cleanup expired sessions error: '' @ message err]\<rparr>)
         | (Inr _, s1) \<Rightarrow> (Inr Success, s1))"

section \<open>TradingServer: shutdown\<close>

text \<open>
  Time is the millisecond clock of the timers. A promise is described by when and how it
  settles, \<open>None\<close> for a promise that never settles. An operation outside the
  repository (closing the HTTP server, a database call, a socket close) is described by
  its behaviour once started: the delay after which it settles and how, or \<open>None\<close> if
  it never does. A line of the console carries the time it is printed at (the decorative
  first character of each message is left out).
\<close>

datatype outcome = Fulfilled | Rejected string

type_synonym promise = "(nat \<times> outcome) option"

type_synonym behaviour = "(nat \<times> outcome) option"

type_synonym line = "nat \<times> string"

definition started :: "nat \<Rightarrow> behaviour \<Rightarrow> promise" where
  "started t b = (case b of None \<Rightarrow> None | Some (d, oc) \<Rightarrow> Some (t + d, oc))"

text \<open>
  \<^verbatim>\<open>new Promise((_, reject) => setTimeout(() => reject(new Error(msg)), ms))\<close>,
  created at time \<open>t\<close>.
\<close>

definition timer_reject :: "nat \<Rightarrow> nat \<Rightarrow> string \<Rightarrow> promise" where
  "timer_reject t ms msg = Some (t + ms, Rejected msg)"

text \<open>
  \<^verbatim>\<open>Promise.race([p, q])\<close> settles as the first of the two to settle (as \<open>p\<close> when
  both settle in the same millisecond).
\<close>

definition race :: "promise \<Rightarrow> promise \<Rightarrow> promise" where
  "race p q =
     (case p of
        None \<Rightarrow> q
      | Some (tp, op) \<Rightarrow>
          (case q of None \<Rightarrow> p | Some (tq, oq) \<Rightarrow> if tp \<le> tq then p else q))"

text \<open>
  \<^verbatim>\<open>p.then(() => console.log(msg))\<close>: when \<open>p\<close> is fulfilled the line is printed and
  the new promise is fulfilled; a rejection passes through.
\<close>

definition then_log :: "promise \<Rightarrow> string \<Rightarrow> promise \<times> line list" where
  "then_log p msg = (p, case p of Some (t, Fulfilled) \<Rightarrow> [(t, msg)] | _ \<Rightarrow> [])"

text \<open>
  \<^verbatim>\<open>Promise.allSettled(ps)\<close>, awaited from time \<open>t\<close>: it is fulfilled, with the outcome
  of every promise, once all have settled, and never if one never settles.
\<close>

fun allSettled :: "nat \<Rightarrow> promise list \<Rightarrow> (nat \<times> outcome list) option" where
  "allSettled t [] = Some (t, [])"
| "allSettled t (p # ps) =
     (case p of
        None \<Rightarrow> None
      | Some (tp, oc) \<Rightarrow>
          (case allSettled t ps of
             None \<Rightarrow> None
           | Some (tq, ocs) \<Rightarrow> Some (max tp tq, oc # ocs)))"

text \<open>
  What the shutdown waits for: \<^verbatim>\<open>fastify.close()\<close> and the four operations that
  \<^verbatim>\<open>cleanup()\<close> starts.
\<close>

record shutdown_env =
  close :: behaviour
  tradingCleanup :: behaviour
  brokerCleanup :: behaviour
  databaseCleanup :: behaviour
  otherCleanup :: behaviour

definition cleanupTimeout :: nat where
  "cleanupTimeout = 5000"

text \<open>
  One entry of \<^verbatim>\<open>cleanupTasks\<close>, server.js lines 290 to 335:
  \<^verbatim>\<open>Promise.race([op().then(() => console.log(done)), <timer rejecting after cleanupTimeout>])\<close>.
\<close>

definition bounded :: "nat \<Rightarrow> behaviour \<Rightarrow> string \<Rightarrow> string \<Rightarrow> promise \<times> line list" where
  "bounded t b done_msg timeout_msg =
     (case then_log (started t b) done_msg of
        (p, out) \<Rightarrow> (race p (timer_reject t cleanupTimeout timeout_msg), out))"

definition cleanupTasks :: "nat \<Rightarrow> shutdown_env \<Rightarrow> (promise \<times> line list) list" where
  "cleanupTasks t env =
     [bounded t (tradingCleanup env) ''Trading service cleanup completed''
        ''Trading service cleanup timeout'',
      bounded t (brokerCleanup env) ''Broker connections cleanup completed''
        ''Broker connections cleanup timeout'',
      bounded t (databaseCleanup env) ''Database cleanup completed''
        ''Database cleanup timeout'',
      bounded t (otherCleanup env) ''Other resources cleanup completed''
        ''Other resources cleanup timeout'']"

text \<open>
  \<^verbatim>\<open>cleanup()\<close>, lines 277 to 345, called at time \<open>t\<close>: the four tasks are started
  together, \<^verbatim>\<open>Promise.allSettled\<close> is awaited and its value dropped. The result is
  the promise of \<^verbatim>\<open>cleanup()\<close> itself and the lines the tasks print if the process
  lives long enough.
\<close>

definition cleanup :: "nat \<Rightarrow> shutdown_env \<Rightarrow> promise \<times> line list" where
  "cleanup t env =
     (let tasks = cleanupTasks t env;
          out = [(t, ''Starting comprehensive cleanup...''),
                 (t, ''Cleared session cleanup interval'')] @ concat (map snd tasks)
      in case allSettled t (map fst tasks) of
           None \<Rightarrow> (None, out)
         | Some (td, _) \<Rightarrow>
             (Some (td, Fulfilled), out @ [(td, ''Comprehensive cleanup completed'')]))"

text \<open>
  The process: the \<^verbatim>\<open>shuttingDown\<close> flag of \<^verbatim>\<open>setupErrorHandling\<close>, the time and
  code of \<^verbatim>\<open>process.exit\<close> once a shutdown has fixed them, and the console.
\<close>

record process =
  shuttingDown :: bool
  exit_at :: "(nat \<times> nat) option"
  printed :: "line list"

definition globalTimeout :: nat where
  "globalTimeout = 8000"

text \<open>
  \<^verbatim>\<open>gracefulShutdown(reason)\<close>, lines 147 to 178, called at time \<open>t\<close>. The timer of
  the forced exit is set first; then \<^verbatim>\<open>fastify.close()\<close> and \<^verbatim>\<open>cleanup()\<close> are
  awaited in turn, and the process exits with code 0, or with code 1 from the
  \<^verbatim>\<open>catch\<close> block. \<open>exit_of\<close> decides between the two ends: whichever of the
  timer and the exit of the \<^verbatim>\<open>try\<close> block comes first ends the process (the timer,
  set earlier, when both fall in the same millisecond), and it tells whether the exit was
  forced. Lines due after the end are never printed. The timer is \<^verbatim>\<open>unref\<close>ed, so a
  process with nothing left to wait for may end before it: \<open>exit_at\<close> is the latest
  time the process can end at.
\<close>

definition exit_of :: "nat \<Rightarrow> (nat \<times> nat) option \<Rightarrow> (nat \<times> nat) \<times> bool" where
  "exit_of deadline finish =
     (case finish of
        None \<Rightarrow> ((deadline, 1), True)
      | Some (tf, code) \<Rightarrow> if tf < deadline then ((tf, code), False) else ((deadline, 1), True))"

text \<open>
  The \<^verbatim>\<open>try\<close> block of \<^verbatim>\<open>gracefulShutdown\<close> entered at time \<open>t\<close>: when it
  would call \<^verbatim>\<open>process.exit\<close> and with which code (never, if an awaited promise never
  settles), and the lines printed on the way.
\<close>

definition shutdown_try :: "shutdown_env \<Rightarrow> nat \<Rightarrow> (nat \<times> nat) option \<times> line list" where
  "shutdown_try env t =
     (case started t (close env) of
        None \<Rightarrow> (None, [])
      | Some (tc, Rejected m) \<Rightarrow> (Some (tc, 1), [(tc, ''error during shutdown'')])
      | Some (tc, Fulfilled) \<Rightarrow>
          (case cleanup tc env of
             (None, out) \<Rightarrow> (None, out)
           | (Some (td, Rejected m), out) \<Rightarrow>
               (Some (td, 1), out @ [(td, ''error during shutdown'')])
           | (Some (td, Fulfilled), out) \<Rightarrow>
               (Some (td, 0), out @ [(td, ''graceful shutdown complete'')])))"

definition gracefulShutdown :: "shutdown_env \<Rightarrow> string \<Rightarrow> nat \<Rightarrow> process \<Rightarrow> process" where
  "gracefulShutdown env reason t p =
     (if shuttingDown p then p
      else
        (let deadline = t + globalTimeout;
             (finish, out) = shutdown_try env t;
             ((tx, code), forced) = exit_of deadline finish
         in p\<lparr>shuttingDown := True,
              exit_at := Some (tx, code),
              printed :=
                printed p @ [(t, ''initiating graceful shutdown: '' @ reason)]
                @ (if forced
                   then filter (\<lambda>(tl, msg). tl < tx) out @ [(tx, ''forced exit after timeout'')]
                   else filter (\<lambda>(tl, msg). tl \<le> tx) out)\<rparr>))"

text \<open>
  The handler of \<^verbatim>\<open>GET /api\<close>, lines 76 to 120, serving a request at time \<open>t\<close>: it
  builds a promise that a timer rejects 10 ms later, keeps no reference to it, and
  returns the description of the API (of which the model keeps the scalar fields and the
  broker list, not the table of endpoints).
\<close>

record api_info =
  name :: string
  version :: string
  description :: string
  supportedBrokers :: "string list"

definition get_api :: "nat \<Rightarrow> api_info \<times> promise" where
  "get_api t =
     (\<lparr>name = ''Trading API'', version = ''1.0.0'',
       description = ''Multi-broker trading application with extensible architecture'',
       supportedBrokers = [''zerodha'']\<rparr>,
      Some (t + 10, Rejected ''undefined''))"

text \<open>
  \<^verbatim>\<open>process.on('unhandledRejection', ...)\<close>, lines 190 to 193: the rejection is printed
  and \<^verbatim>\<open>gracefulShutdown('unhandledRejection')\<close> is called.
\<close>

definition unhandledRejection :: "shutdown_env \<Rightarrow> nat \<Rightarrow> process \<Rightarrow> process" where
  "unhandledRejection env t p =
     gracefulShutdown env ''unhandledRejection'' t
       (p\<lparr>printed := printed p @ [(t, ''unhandledRejection'')]\<rparr>)"

text \<open>
  A request to \<^verbatim>\<open>GET /api\<close> served at time \<open>t\<close>, with what Node.js does with the
  promise the handler left behind: a promise rejected while no handler is attached to it
  raises the process event \<^verbatim>\<open>unhandledRejection\<close>.
\<close>

definition serve_api :: "shutdown_env \<Rightarrow> nat \<Rightarrow> process \<Rightarrow> api_info \<times> process" where
  "serve_api env t p =
     (case get_api t of
        (reply, floating) \<Rightarrow>
          (reply,
           case floating of
             Some (tr, Rejected m) \<Rightarrow> unhandledRejection env tr p
           | _ \<Rightarrow> p))"

section \<open>Concrete inputs\<close>

text \<open>The states and inputs at which the theorems below are evaluated.\<close>

definition demo_config :: config where
  "demo_config = \<lparr>apiKey = ''key'', apiSecret = ''secret''\<rparr>"

definition working_ticker :: ticker where
  "working_ticker =
     \<lparr>api_key = ''key'', access_token = Some ''tok'',
      handlers = [''ticks'', ''connect'', ''disconnect'', ''error'', ''close''],
      fault = None\<rparr>"

definition faulty_ticker :: ticker where
  "faulty_ticker = working_ticker\<lparr>fault := Some ''socket hang up''\<rparr>"

definition connected_broker :: broker where
  "connected_broker =
     \<lparr>config = demo_config, isConnected = True, kc_token = Some ''tok'', ticker = None,
      accessToken = Some ''tok'', subscribedInstruments = [],
      io = [KcGetProfile (Some ''tok'')]\<rparr>"

definition streaming_broker :: broker where
  "streaming_broker =
     connected_broker\<lparr>ticker := Some working_ticker, subscribedInstruments := [256265],
       io := [KcGetProfile (Some ''tok''), TickerConnect, TickerSubscribe [256265],
              TickerSetMode [256265]]\<rparr>"

definition stuck_broker :: broker where
  "stuck_broker = streaming_broker\<lparr>ticker := Some faulty_ticker\<rparr>"

definition live_session :: session where
  "live_session =
     \<lparr>userId = ''64b7f0c2'', brokerType = ''zerodha'', accessToken = ''tok'',
      expiresAt = 2000, isActive = True\<rparr>"

definition expired_session :: session where
  "expired_session = live_session\<lparr>expiresAt := 500\<rparr>"

definition demo_env :: env where
  "demo_env =
     \<lparr>now = 1000,
      kc_getProfile = (\<lambda>tok. if tok = Some ''tok'' then Inr ''profile''
                              else Inl ''Incorrect api_key or access_token''),
      kc_placeOrder = (\<lambda>p. Inr ''order-1''),
      ticker_fault = None\<rparr>"

definition empty_service :: service where
  "empty_service =
     \<lparr>heap = [], activeBrokers = [], sessions = [], console = [],
      process_env = demo_config\<rparr>"

definition fresh_service :: service where
  "fresh_service = empty_service\<lparr>sessions := [live_session]\<rparr>"

definition streaming_service :: service where
  "streaming_service =
     fresh_service\<lparr>heap := [streaming_broker],
                    activeBrokers := [(''64b7f0c2_zerodha'', 0)]\<rparr>"

text \<open>
  The broker object that a successful \<open>getBrokerInstance\<close> has built: configured,
  holding the session's token, connected by one profile request, without ticker and
  without subscriptions.
\<close>

definition connected_with :: "config \<Rightarrow> string \<Rightarrow> broker" where
  "connected_with c tok =
     \<lparr>config = c, isConnected = True, kc_token = Some tok, ticker = None,
      accessToken = Some tok, subscribedInstruments = [], io = [KcGetProfile (Some tok)]\<rparr>"

text \<open>The wire subscriptions among a list of library calls.\<close>

fun is_subscribe :: "call \<Rightarrow> bool" where
  "is_subscribe (TickerSubscribe _) = True"
| "is_subscribe _ = False"






definition connected_service :: service where
  "connected_service =
     fresh_service\<lparr>heap := [connected_broker],
                    activeBrokers := [(''64b7f0c2_zerodha'', 0)]\<rparr>"

text \<open>
  A cached key is stale when the sweep's query finds no session for it, and a broker's
  disconnect goes through when it has no ticker or its ticker does not throw.
\<close>

definition stale :: "nat \<Rightarrow> session list \<Rightarrow> string \<Rightarrow> bool" where
  "stale t ss key = (session_of_key t key ss = None)"

definition disconnect_ok :: "broker \<Rightarrow> bool" where
  "disconnect_ok b = (case ticker b of None \<Rightarrow> True | Some t \<Rightarrow> fault t = None)"

definition mixed_service :: service where
  "mixed_service =
     \<lparr>heap = [streaming_broker, connected_broker, streaming_broker],
      activeBrokers = [(''64b7f0c2_zerodha'', 0), (''5f1d9e3a_zerodha'', 1), (''7a2c4b10_zerodha'', 2)],
      sessions = [live_session, expired_session\<lparr>userId := ''5f1d9e3a''\<rparr>],
      console = [], process_env = demo_config\<rparr>"


definition expired_stuck_service :: service where
  "expired_stuck_service =
     \<lparr>heap = [stuck_broker], activeBrokers = [(''64b7f0c2_zerodha'', 0)],
      sessions = [expired_session], console = [], process_env = demo_config\<rparr>"

definition running :: process where
  "running = \<lparr>shuttingDown = False, exit_at = None, printed = []\<rparr>"

text \<open>
  A shutdown in which the server closes at once, the database never answers, the broker
  connections are closed after one second, the sweep takes two seconds and there is
  nothing else to clean up.
\<close>

definition hanging_database :: shutdown_env where
  "hanging_database =
     \<lparr>close = Some (0, Fulfilled), tradingCleanup = Some (2000, Fulfilled),
      brokerCleanup = Some (1000, Fulfilled), databaseCleanup = None,
      otherCleanup = Some (0, Fulfilled)\<rparr>"

text \<open>A shutdown in which even closing the server never completes.\<close>

definition hanging_close :: shutdown_env where
  "hanging_close = hanging_database\<lparr>close := None\<rparr>"


section \<open>ZerodhaBroker.disconnect\<close>

text \<open>
  Claim C6 says that \<^verbatim>\<open>disconnect()\<close> never throws, also when the ticker's own
  disconnect call fails, and that it releases the ticker on every exit path. The code
  throws in that case: for a broker whose ticker throws \<^verbatim>\<open>socket hang up\<close> the call
  fails with the wrapped error, and the broker still holds the ticker and still counts as
  connected.
\<close>

theorem disconnect_throws_counterexample:
  "fst (disconnect stuck_broker)
     = Inl (Error ''Failed to disconnect from Zerodha: socket hang up'')
   \<and> ticker (snd (disconnect stuck_broker)) = Some faulty_ticker
   \<and> isConnected (snd (disconnect stuck_broker))"
  by (simp add: disconnect_def stuck_broker_def streaming_broker_def connected_broker_def
      faulty_ticker_def working_ticker_def ticker_call_def wrap_def)

text \<open>
  Claim C6, amended. When the broker has no ticker, or its ticker's disconnect call does
  not throw, \<^verbatim>\<open>disconnect()\<close> succeeds: the ticker's disconnect is called if there is
  a ticker, the ticker is released, the broker is marked disconnected and its token
  cleared, and a second \<^verbatim>\<open>disconnect()\<close> succeeds again and changes nothing. When the
  ticker's disconnect call throws, \<^verbatim>\<open>disconnect()\<close> throws the wrapped error and leaves
  the broker as it was, ticker included.
\<close>

theorem disconnect_spec:
  "((case ticker b of None \<Rightarrow> True | Some t \<Rightarrow> fault t = None) \<longrightarrow>
      fst (disconnect b) = Inr ()
      \<and> ticker (snd (disconnect b)) = None
      \<and> \<not> isConnected (snd (disconnect b))
      \<and> broker.accessToken (snd (disconnect b)) = None
      \<and> io (snd (disconnect b)) = (if ticker b = None then io b else io b @ [TickerDisconnect])
      \<and> disconnect (snd (disconnect b)) = (Inr (), snd (disconnect b)))
   \<and> (\<forall>t m. ticker b = Some t \<and> fault t = Some m \<longrightarrow>
        disconnect b = (Inl (Error (''Failed to disconnect from Zerodha: '' @ m)), b))"
  by (auto simp: disconnect_def ticker_call_def wrap_def split: option.splits)

theorem disconnect_spec_witness:
  "fst (disconnect streaming_broker) = Inr ()
   \<and> ticker (snd (disconnect streaming_broker)) = None
   \<and> \<not> isConnected (snd (disconnect streaming_broker))
   \<and> io (snd (disconnect streaming_broker))
       = [KcGetProfile (Some ''tok''), TickerConnect, TickerSubscribe [256265],
          TickerSetMode [256265], TickerDisconnect]
   \<and> disconnect (snd (disconnect streaming_broker)) = (Inr (), snd (disconnect streaming_broker))
   \<and> disconnect stuck_broker
       = (Inl (Error ''Failed to disconnect from Zerodha: socket hang up''), stuck_broker)"
  using disconnect_spec [of streaming_broker] disconnect_spec [of stuck_broker]
  by (simp add: streaming_broker_def stuck_broker_def connected_broker_def working_ticker_def
      faulty_ticker_def)

section \<open>ZerodhaBroker.subscribeToTicker\<close>

lemma foldl_set_add_set: "set (foldl (\<lambda>s x. set_add x s) s xs) = set s \<union> set xs"
  by (induction xs arbitrary: s) (auto simp: set_add_def)

lemma foldl_set_add_distinct: "distinct s \<Longrightarrow> distinct (foldl (\<lambda>s x. set_add x s) s xs)"
  by (induction xs arbitrary: s) (auto simp: set_add_def)

lemma foldl_set_add_absorb: "set xs \<subseteq> set s \<Longrightarrow> foldl (\<lambda>s x. set_add x s) s xs = s"
  by (induction xs arbitrary: s) (auto simp: set_add_def)

text \<open>
  Claim C8 says that subscribing while the stream is not connected succeeds and leaves
  the ids pending. The code refuses: on a connected broker without a ticker the call
  throws \<^verbatim>\<open>WebSocket not connected\<close> and the set stays empty, and so does the call
  through the service for the cached broker of a key.
\<close>

theorem subscribe_pending_counterexample:
  "fst (subscribeToTicker (Array [256265, 408065]) connected_broker)
     = Inl (Error ''WebSocket not connected'')
   \<and> subscribedInstruments (snd (subscribeToTicker (Array [256265, 408065]) connected_broker)) = []
   \<and> fst (service_subscribeToTicker demo_env ''64b7f0c2'' ''zerodha'' (Array [256265, 408065])
            connected_service)
       = Inl (Error ''Failed to subscribe to ticker: WebSocket not connected'')
   \<and> map subscribedInstruments
         (heap (snd (service_subscribeToTicker demo_env ''64b7f0c2'' ''zerodha''
                       (Array [256265, 408065]) connected_service))) = [[]]"
  by code_simp

text \<open>
  Claim C8, amended. On a broker without a ticker (\<^verbatim>\<open>connectWebSocket\<close> has not run)
  \<^verbatim>\<open>subscribeToTicker\<close> throws \<^verbatim>\<open>WebSocket not connected\<close> and changes nothing: no id
  is kept pending. On a broker with a working ticker it issues the wire subscribe and the
  mode call at once, returns the ids, and adds them to the subscription set, which stays
  free of duplicates; subscribing the same ids again leaves the set as it is.
\<close>

theorem subscribeToTicker_spec:
  "(ticker b = None \<longrightarrow>
      subscribeToTicker ins b = (Inl (Error ''WebSocket not connected''), b))
   \<and> (\<forall>t. ticker b = Some t \<and> fault t = None \<longrightarrow>
        fst (subscribeToTicker ins b) = Inr (instrumentsArray ins)
        \<and> io (snd (subscribeToTicker ins b))
            = io b @ [TickerSubscribe (instrumentsArray ins), TickerSetMode (instrumentsArray ins)]
        \<and> set (subscribedInstruments (snd (subscribeToTicker ins b)))
            = set (subscribedInstruments b) \<union> set (instrumentsArray ins)
        \<and> (distinct (subscribedInstruments b) \<longrightarrow>
             distinct (subscribedInstruments (snd (subscribeToTicker ins b))))
        \<and> subscribedInstruments (snd (subscribeToTicker ins (snd (subscribeToTicker ins b))))
            = subscribedInstruments (snd (subscribeToTicker ins b)))"
  by (auto simp: subscribeToTicker_def ticker_call_def Let_def foldl_set_add_set
      foldl_set_add_distinct foldl_set_add_absorb)

theorem subscribeToTicker_spec_witness:
  "subscribeToTicker (Single 408065) connected_broker
     = (Inl (Error ''WebSocket not connected''), connected_broker)
   \<and> fst (subscribeToTicker (Array [408065, 256265, 408065]) streaming_broker)
       = Inr [408065, 256265, 408065]
   \<and> set (subscribedInstruments (snd (subscribeToTicker (Array [408065, 256265, 408065]) streaming_broker)))
       = {256265, 408065}
   \<and> distinct (subscribedInstruments (snd (subscribeToTicker (Array [408065, 256265, 408065]) streaming_broker)))"
  using subscribeToTicker_spec [of connected_broker "Single 408065"]
    subscribeToTicker_spec [of streaming_broker "Array [408065, 256265, 408065]"]
  by (auto simp: streaming_broker_def connected_broker_def working_ticker_def Let_def)

section \<open>TradingService.getBrokerInstance\<close>

lemma getBrokerInstance_cached:
  "map_of (activeBrokers s) (sessionKey u bt) = Some r \<Longrightarrow>
     getBrokerInstance e u bt s = (Inr r, s)"
  by (simp add: getBrokerInstance_def)

lemma getBrokerInstance_no_session:
  "map_of (activeBrokers s) (sessionKey u bt) = None \<Longrightarrow>
   findActiveSession (now e) u bt (sessions s) = None \<Longrightarrow>
     getBrokerInstance e u bt s
       = (Inl (Error (''Failed to get broker instance: No active '' @ bt @ '' session found'')), s)"
  by (simp add: getBrokerInstance_def gbi_fail_def wrap_def)

lemma getBrokerInstance_created:
  assumes "map_of (activeBrokers s) (sessionKey u bt) = None"
    and "getBrokerInstance e u bt s = (Inr r, s')"
  shows "\<exists>sess. findActiveSession (now e) u bt (sessions s) = Some sess
           \<and> bt = ''zerodha'' \<and> r = length (heap s)
           \<and> s' = s\<lparr>heap := heap s @ [connected_with (process_env s) (session.accessToken sess)],
                     activeBrokers := AList.update (sessionKey u bt) r (activeBrokers s)\<rparr>"
  using assms
  by (auto simp: getBrokerInstance_def gbi_fail_def getBrokerConfig_def createBroker_def
      connect_begin_def connect_end_def setAccessToken_def new_ZerodhaBroker_def
      connected_with_def Let_def
      split: option.splits sum.splits if_splits prod.splits)

text \<open>
  A call run alone always settles within its three parts: the value \<open>pending\<close> of
  \<open>gbi_result\<close> is never the result of \<open>getBrokerInstance\<close>.
\<close>

lemma getBrokerInstance_settles:
  "\<exists>res s'. gbi_step e (fst (gbi_step e (fst (gbi_step e (Call u bt) s)) (snd (gbi_step e (Call u bt) s))))
                (snd (gbi_step e (fst (gbi_step e (Call u bt) s)) (snd (gbi_step e (Call u bt) s))))
             = (Settled res, s')"
  by (auto simp: gbi_fail_def Let_def split: option.splits sum.splits if_splits prod.splits)

lemma findActiveSession_None:
  "findActiveSession t u bt ss = None \<longleftrightarrow>
     (\<forall>x\<in>set ss. userId x = u \<and> brokerType x = bt \<longrightarrow> \<not> isActive x \<or> expiresAt x \<le> t)"
  by (auto simp: findActiveSession_def find_None_iff)

lemma call_seq_cached:
  "map_of (activeBrokers s) (sessionKey u bt) = Some r \<Longrightarrow>
     call_seq e n u bt s = (replicate n (Inr r), s)"
  by (induction n) (simp_all add: getBrokerInstance_cached)

lemma handshakes_append:
  "handshakes (s\<lparr>heap := heap s @ [b], activeBrokers := al\<rparr>)
     = handshakes s + length (filter is_handshake (io b))"
  by (simp add: handshakes_def)

text \<open>
  Claim C1 says that concurrent calls for one key perform exactly one connect handshake
  and all receive the same handle. The code has no lock and no record of a creation in
  progress. Two calls for the same key made in the same turn of the event loop both find
  the cache empty, both query the session, both build and connect a broker: two
  handshakes, two different objects (references 0 and 1), and the second replaces the
  first in the cache.
\<close>

theorem concurrent_calls_counterexample:
  "fst (run demo_env [0, 1, 0, 1, 0, 1]
          [Call ''64b7f0c2'' ''zerodha'', Call ''64b7f0c2'' ''zerodha''] fresh_service)
     = [Settled (Inr 0), Settled (Inr 1)]
   \<and> handshakes (snd (run demo_env [0, 1, 0, 1, 0, 1]
          [Call ''64b7f0c2'' ''zerodha'', Call ''64b7f0c2'' ''zerodha''] fresh_service)) = 2
   \<and> handshakes fresh_service = 0
   \<and> activeBrokers (snd (run demo_env [0, 1, 0, 1, 0, 1]
          [Call ''64b7f0c2'' ''zerodha'', Call ''64b7f0c2'' ''zerodha''] fresh_service))
       = [(''64b7f0c2_zerodha'', 1)]"
  by code_simp

text \<open>
  Claim C1, amended. For every key that is not cached and every \<open>n\<close>, when \<open>n + 1\<close>
  calls for the key are made one after the other, each after the one before has returned,
  and the first succeeds, then exactly one connect handshake is performed, all calls
  receive the same reference, and that reference is the cached one. (Calls that overlap
  are not serialized: each that finds the cache empty performs its own handshake.)
\<close>

theorem sequential_calls_one_handshake:
  assumes "map_of (activeBrokers s) (sessionKey u bt) = None"
    and "call_seq e (Suc n) u bt s = (rs, s')"
    and "hd rs = Inr r"
  shows "rs = replicate (Suc n) (Inr r)
         \<and> handshakes s' = handshakes s + 1
         \<and> map_of (activeBrokers s') (sessionKey u bt) = Some r"
proof -
  obtain res s1 where first: "getBrokerInstance e u bt s = (res, s1)"
    by (cases "getBrokerInstance e u bt s")
  obtain rs1 s2 where rest: "call_seq e n u bt s1 = (rs1, s2)"
    by (cases "call_seq e n u bt s1")
  from assms(2) first rest have rs: "rs = res # rs1" and s': "s' = s2"
    by simp_all
  with assms(3) have res: "res = Inr r"
    by simp
  from getBrokerInstance_created [OF assms(1) first [unfolded res]]
  obtain sess :: session where
    s1: "s1 = s\<lparr>heap := heap s @ [connected_with (process_env s) (session.accessToken sess)],
                 activeBrokers := AList.update (sessionKey u bt) r (activeBrokers s)\<rparr>"
    by blast
  have cached: "map_of (activeBrokers s1) (sessionKey u bt) = Some r"
    by (simp add: s1 update_conv')
  from call_seq_cached [OF cached, of e n] rest
  have rs1: "rs1 = replicate n (Inr r)" and s2: "s2 = s1"
    by simp_all
  have "handshakes s1 = handshakes s + 1"
    unfolding s1 by (simp add: handshakes_append connected_with_def)
  with rs res rs1 s' s2 cached show ?thesis
    by simp
qed

theorem sequential_calls_one_handshake_witness:
  "call_seq demo_env 3 ''64b7f0c2'' ''zerodha'' fresh_service
     = ([Inr 0, Inr 0, Inr 0], snd (call_seq demo_env 3 ''64b7f0c2'' ''zerodha'' fresh_service))
   \<and> handshakes (snd (call_seq demo_env 3 ''64b7f0c2'' ''zerodha'' fresh_service)) = 1
   \<and> map_of (activeBrokers (snd (call_seq demo_env 3 ''64b7f0c2'' ''zerodha'' fresh_service)))
        (sessionKey ''64b7f0c2'' ''zerodha'') = Some 0"
proof -
  have a: "map_of (activeBrokers fresh_service) (sessionKey ''64b7f0c2'' ''zerodha'') = None"
    by (simp add: fresh_service_def empty_service_def)
  have b: "call_seq demo_env (Suc 2) ''64b7f0c2'' ''zerodha'' fresh_service
             = (fst (call_seq demo_env (Suc 2) ''64b7f0c2'' ''zerodha'' fresh_service),
                snd (call_seq demo_env (Suc 2) ''64b7f0c2'' ''zerodha'' fresh_service))"
    by simp
  have c: "hd (fst (call_seq demo_env (Suc 2) ''64b7f0c2'' ''zerodha'' fresh_service)) = Inr 0"
    by code_simp
  have d: "handshakes fresh_service = 0"
    by code_simp
  have e: "Suc 2 = 3"
    by simp
  from sequential_calls_one_handshake [OF a b c] d show ?thesis
    unfolding e by (simp add: numeral_3_eq_3 prod_eq_iff)
qed

text \<open>
  Claim C2 says that \<open>getBrokerInstance\<close> fails with one error when the store holds no
  session for the key and with a different error when the session has expired. The code
  has one query, \<open>findActiveSession\<close>, which answers nothing in both cases, and one
  error for an empty answer: with an empty store and with a store holding only an expired
  session the caller receives the same message. And when the cache holds a broker for the
  key, the store is not consulted at all: with an empty store the call returns the cached
  broker.
\<close>

theorem missing_and_expired_counterexample:
  "fst (getBrokerInstance demo_env ''64b7f0c2'' ''zerodha'' empty_service)
     = Inl (Error ''Failed to get broker instance: No active zerodha session found'')
   \<and> fst (getBrokerInstance demo_env ''64b7f0c2'' ''zerodha''
            (empty_service\<lparr>sessions := [expired_session]\<rparr>))
     = Inl (Error ''Failed to get broker instance: No active zerodha session found'')
   \<and> fst (getBrokerInstance demo_env ''64b7f0c2'' ''zerodha''
            (streaming_service\<lparr>sessions := []\<rparr>))
     = Inr 0"
  by code_simp

text \<open>
  Claim C2, amended. When the cache holds no broker for the key and the store holds no
  session of the key that is active and unexpired (none at all, or only inactive or
  expired ones), \<open>getBrokerInstance\<close> fails with the one error
  \<^verbatim>\<open>Failed to get broker instance: No active <brokerType> session found\<close> and changes
  nothing; the cases are not told apart. When the cache holds a broker for the key, it is
  returned whatever the store holds.
\<close>

theorem getBrokerInstance_no_active_session:
  "(map_of (activeBrokers s) (sessionKey u bt) = None
      \<and> (\<forall>x\<in>set (sessions s). userId x = u \<and> brokerType x = bt \<longrightarrow>
            \<not> isActive x \<or> expiresAt x \<le> now e) \<longrightarrow>
      getBrokerInstance e u bt s
        = (Inl (Error (''Failed to get broker instance: No active '' @ bt @ '' session found'')), s))
   \<and> (\<forall>r. map_of (activeBrokers s) (sessionKey u bt) = Some r \<longrightarrow>
         getBrokerInstance e u bt s = (Inr r, s))"
  using getBrokerInstance_no_session [of s u bt e] getBrokerInstance_cached [of s u bt _ e]
  by (simp add: findActiveSession_None)

theorem getBrokerInstance_no_active_session_witness:
  "getBrokerInstance demo_env ''64b7f0c2'' ''zerodha'' (empty_service\<lparr>sessions := [expired_session]\<rparr>)
     = (Inl (Error ''Failed to get broker instance: No active zerodha session found''),
        empty_service\<lparr>sessions := [expired_session]\<rparr>)
   \<and> getBrokerInstance demo_env ''64b7f0c2'' ''zerodha'' streaming_service
       = (Inr 0, streaming_service)"
  using getBrokerInstance_no_active_session
          [of "empty_service\<lparr>sessions := [expired_session]\<rparr>" "''64b7f0c2''" "''zerodha''" demo_env]
        getBrokerInstance_no_active_session
          [of streaming_service "''64b7f0c2''" "''zerodha''" demo_env]
  by (simp add: empty_service_def expired_session_def live_session_def demo_env_def
      streaming_service_def fresh_service_def sessionKey_def)

section \<open>ZerodhaBroker.connectWebSocket\<close>

lemma getBrokerInstance_created_broker:
  assumes "map_of (activeBrokers s) (sessionKey u bt) = None"
    and "getBrokerInstance e u bt s = (Inr r, s')"
  shows "subscribedInstruments (heap s' ! r) = [] \<and> io (heap s' ! r) = [KcGetProfile (broker.accessToken (heap s' ! r))]"
proof -
  from getBrokerInstance_created [OF assms]
  obtain sess :: session where r: "r = length (heap s)"
    and s': "s' = s\<lparr>heap := heap s @ [connected_with (process_env s) (session.accessToken sess)],
                    activeBrokers := AList.update (sessionKey u bt) r (activeBrokers s)\<rparr>"
    by blast
  show ?thesis
    unfolding s' r by (simp add: connected_with_def)
qed

text \<open>
  Claim C7 says that when the broker of a key is replaced while instruments are
  subscribed, the stream of the new broker carries the prior set without a new subscribe
  call. In the code the set is a field of the broker object, and \<^verbatim>\<open>connectWebSocket\<close>
  never reads it. Here the cached broker of the key, subscribed to instrument 256265, is
  torn down by \<open>disconnectBroker\<close>; the user authorizes again (a new session is
  stored); the next \<^verbatim>\<open>connectWebSocket\<close> builds a new broker (reference 1) and
  connects its stream: its subscription set is empty and the only calls it has issued are
  the handshake and the stream connect.
\<close>

theorem replaced_broker_counterexample:
  "subscribedInstruments (heap streaming_service ! 0) = [256265]
   \<and> fst (disconnectBroker ''64b7f0c2'' ''zerodha'' streaming_service) = Inr ()
   \<and> activeBrokers (snd (disconnectBroker ''64b7f0c2'' ''zerodha'' streaming_service)) = []
   \<and> fst (service_connectWebSocket demo_env ''64b7f0c2'' ''zerodha''
            ((snd (disconnectBroker ''64b7f0c2'' ''zerodha'' streaming_service))
               \<lparr>sessions := [live_session]\<rparr>)) = Inr ()
   \<and> activeBrokers (snd (service_connectWebSocket demo_env ''64b7f0c2'' ''zerodha''
            ((snd (disconnectBroker ''64b7f0c2'' ''zerodha'' streaming_service))
               \<lparr>sessions := [live_session]\<rparr>))) = [(''64b7f0c2_zerodha'', 1)]
   \<and> subscribedInstruments (heap (snd (service_connectWebSocket demo_env ''64b7f0c2'' ''zerodha''
            ((snd (disconnectBroker ''64b7f0c2'' ''zerodha'' streaming_service))
               \<lparr>sessions := [live_session]\<rparr>))) ! 1) = []
   \<and> io (heap (snd (service_connectWebSocket demo_env ''64b7f0c2'' ''zerodha''
            ((snd (disconnectBroker ''64b7f0c2'' ''zerodha'' streaming_service))
               \<lparr>sessions := [live_session]\<rparr>))) ! 1)
       = [KcGetProfile (Some ''tok''), TickerConnect]"
  by code_simp

text \<open>
  Claim C7, amended. The subscription set does not survive the replacement of the broker:
  a broker built by \<open>getBrokerInstance\<close> for a key that is not cached starts with an
  empty subscription set and has issued only its handshake; and \<^verbatim>\<open>connectWebSocket\<close>,
  on any broker, leaves the subscription set as it is and issues no wire subscribe. The
  caller has to subscribe again on the new broker.
\<close>

theorem connectWebSocket_no_resubscribe:
  "subscribedInstruments (snd (connectWebSocket e b)) = subscribedInstruments b
   \<and> filter is_subscribe (io (snd (connectWebSocket e b))) = filter is_subscribe (io b)
   \<and> subscribedInstruments (new_ZerodhaBroker c) = []
   \<and> (map_of (activeBrokers s) (sessionKey u bt) = None
        \<and> getBrokerInstance e u bt s = (Inr r, s') \<longrightarrow>
          subscribedInstruments (heap s' ! r) = []
          \<and> filter is_subscribe (io (heap s' ! r)) = []
          \<and> subscribedInstruments (snd (connectWebSocket e (heap s' ! r))) = []
          \<and> filter is_subscribe (io (snd (connectWebSocket e (heap s' ! r)))) = [])"
proof -
  have a: "subscribedInstruments (snd (connectWebSocket e b)) = subscribedInstruments b" for b
    by (simp add: connectWebSocket_def ticker_call_def Let_def split: option.splits)
  have b: "filter is_subscribe (io (snd (connectWebSocket e b))) = filter is_subscribe (io b)" for b
    by (simp add: connectWebSocket_def ticker_call_def Let_def split: option.splits)
  have c: "subscribedInstruments (new_ZerodhaBroker c) = []"
    by (simp add: new_ZerodhaBroker_def)
  show ?thesis
    using getBrokerInstance_created_broker [of s u bt e r s']
    by (simp add: a b c)
qed

theorem connectWebSocket_no_resubscribe_witness:
  "subscribedInstruments (snd (connectWebSocket demo_env streaming_broker)) = [256265]
   \<and> filter is_subscribe (io (snd (connectWebSocket demo_env streaming_broker)))
       = [TickerSubscribe [256265]]
   \<and> subscribedInstruments
        (heap (snd (getBrokerInstance demo_env ''64b7f0c2'' ''zerodha'' fresh_service)) ! 0) = []
   \<and> filter is_subscribe
        (io (snd (connectWebSocket demo_env
               (heap (snd (getBrokerInstance demo_env ''64b7f0c2'' ''zerodha'' fresh_service)) ! 0))))
       = []"
proof -
  have a: "map_of (activeBrokers fresh_service) (sessionKey ''64b7f0c2'' ''zerodha'') = None"
    by (simp add: fresh_service_def empty_service_def)
  have b: "getBrokerInstance demo_env ''64b7f0c2'' ''zerodha'' fresh_service
             = (Inr 0, snd (getBrokerInstance demo_env ''64b7f0c2'' ''zerodha'' fresh_service))"
    by code_simp
  have c: "filter is_subscribe (io streaming_broker) = [TickerSubscribe [256265]]"
    by code_simp
  have d: "subscribedInstruments streaming_broker = [256265]"
    by code_simp
  from connectWebSocket_no_resubscribe
         [of demo_env streaming_broker demo_config fresh_service "''64b7f0c2''" "''zerodha''" 0
             "snd (getBrokerInstance demo_env ''64b7f0c2'' ''zerodha'' fresh_service)"]
       a b c d
  show ?thesis
    by simp
qed

section \<open>TradingService.placeOrder\<close>















section \<open>TradingService.cleanupExpiredSessions\<close>

lemma findActiveSession_expire:
  "findActiveSession t u bt (expireSessions t ss) = findActiveSession t u bt ss"
  by (induction ss) (auto simp: findActiveSession_def expireSessions_def)

lemma session_of_key_expire:
  "session_of_key t key (expireSessions t ss) = session_of_key t key ss"
  by (simp add: session_of_key_def findActiveSession_expire split: list.splits)

lemma stale_expire: "stale t (expireSessions t ss) key = stale t ss key"
  by (simp add: stale_def session_of_key_expire)

lemma split_on_absent: "c \<notin> set xs \<Longrightarrow> split_on c xs = [xs]"
  by (induction xs) auto

lemma split_on_first: "c \<notin> set u \<Longrightarrow> split_on c (u @ c # v) = u # split_on c v"
  by (induction u) auto

lemma session_of_key_sessionKey:
  assumes "CHR ''_'' \<notin> set u" and "CHR ''_'' \<notin> set bt"
  shows "session_of_key t (sessionKey u bt) ss = findActiveSession t u bt ss"
  using assms
  by (simp add: session_of_key_def sessionKey_def split_on_first split_on_absent)

lemma on_broker_disconnect_ok:
  assumes "disconnect_ok (heap s ! r)"
  shows "on_broker r disconnect s
           = (Inr (), s\<lparr>heap := (heap s)[r := snd (disconnect (heap s ! r))]\<rparr>)"
  using assms
  by (auto simp: on_broker_def disconnect_ok_def disconnect_def ticker_call_def
      split: option.splits)

lemma sweep_loop_ok:
  assumes "distinct (map snd es)"
    and "\<forall>(k, r)\<in>set es. r < length (heap s)"
    and "\<forall>(k, r)\<in>set es. stale (now e) (sessions s) k \<longrightarrow> disconnect_ok (heap s ! r)"
  shows "fst (sweep_loop e es s) = Inr ()
     \<and> sessions (snd (sweep_loop e es s)) = sessions s
     \<and> console (snd (sweep_loop e es s)) = console s
     \<and> length (heap (snd (sweep_loop e es s))) = length (heap s)
     \<and> activeBrokers (snd (sweep_loop e es s))
         = filter (\<lambda>(k, r). \<not> (k \<in> fst ` set es \<and> stale (now e) (sessions s) k)) (activeBrokers s)
     \<and> (\<forall>r<length (heap s). heap (snd (sweep_loop e es s)) ! r
           = (if \<exists>k. (k, r) \<in> set es \<and> stale (now e) (sessions s) k
              then snd (disconnect (heap s ! r)) else heap s ! r))"
  using assms
proof (induction es arbitrary: s)
  case Nil
  show ?case
    by simp
next
  case (Cons x es)
  obtain k r where x: "x = (k, r)"
    by (cases x)
  from Cons.prems have dist: "distinct (map snd es)" and fresh: "r \<notin> snd ` set es"
    by (simp_all add: x)
  show ?case
  proof (cases "stale (now e) (sessions s) k")
    case False
    then have step: "sweep_loop e (x # es) s = sweep_loop e es s"
      by (auto simp: x stale_def split: option.splits)
    from Cons.prems have
      "\<forall>(k, r)\<in>set es. r < length (heap s)"
      "\<forall>(k, r)\<in>set es. stale (now e) (sessions s) k \<longrightarrow> disconnect_ok (heap s ! r)"
      by simp_all
    from Cons.IH [OF dist this] have IH:
      "fst (sweep_loop e es s) = Inr ()"
      "sessions (snd (sweep_loop e es s)) = sessions s"
      "console (snd (sweep_loop e es s)) = console s"
      "length (heap (snd (sweep_loop e es s))) = length (heap s)"
      "activeBrokers (snd (sweep_loop e es s))
         = filter (\<lambda>(k, r). \<not> (k \<in> fst ` set es \<and> stale (now e) (sessions s) k)) (activeBrokers s)"
      "\<forall>r<length (heap s). heap (snd (sweep_loop e es s)) ! r
           = (if \<exists>k. (k, r) \<in> set es \<and> stale (now e) (sessions s) k
              then snd (disconnect (heap s ! r)) else heap s ! r)"
      by simp_all
    have pool: "filter (\<lambda>(k', r'). \<not> (k' \<in> fst ` set es \<and> stale (now e) (sessions s) k')) (activeBrokers s)
                 = filter (\<lambda>(k', r'). \<not> (k' \<in> fst ` set (x # es) \<and> stale (now e) (sessions s) k')) (activeBrokers s)"
      using False by (intro filter_cong) (auto simp: x)
    have objs: "(\<exists>k'. (k', r') \<in> set (x # es) \<and> stale (now e) (sessions s) k')
                  \<longleftrightarrow> (\<exists>k'. (k', r') \<in> set es \<and> stale (now e) (sessions s) k')" for r'
      using False by (auto simp: x)
    show ?thesis
      unfolding step objs using IH pool by simp
  next
    case True
    with Cons.prems have ok: "disconnect_ok (heap s ! r)" and r: "r < length (heap s)"
      by (simp_all add: x)
    define s1 where "s1 = s\<lparr>heap := (heap s)[r := snd (disconnect (heap s ! r))],
                            activeBrokers := AList.delete k (activeBrokers s)\<rparr>"
    from True have step: "sweep_loop e (x # es) s = sweep_loop e es s1"
      by (simp add: x stale_def on_broker_disconnect_ok [OF ok] s1_def)
    have same: "heap s1 ! r' = heap s ! r'" if "r' \<in> snd ` set es" for r'
    proof -
      from that fresh have "r' \<noteq> r"
        by blast
      then show ?thesis
        by (simp add: s1_def)
    qed
    from Cons.prems have
      p1: "\<forall>(k, r)\<in>set es. r < length (heap s1)"
      by (auto simp: s1_def)
    have ss1: "sessions s1 = sessions s"
      by (simp add: s1_def)
    have p2: "\<forall>(k, r)\<in>set es. stale (now e) (sessions s1) k \<longrightarrow> disconnect_ok (heap s1 ! r)"
    proof (intro ballI, clarify)
      fix k' r'
      assume in_es: "(k', r') \<in> set es" and st: "stale (now e) (sessions s1) k'"
      from in_es have "r' \<in> snd ` set es"
        by force
      then have "heap s1 ! r' = heap s ! r'"
        by (rule same)
      moreover from Cons.prems(3) in_es st have "disconnect_ok (heap s ! r')"
        unfolding ss1 by auto
      ultimately show "disconnect_ok (heap s1 ! r')"
        by simp
    qed
    from Cons.IH [OF dist p1 p2] have IH:
      "fst (sweep_loop e es s1) = Inr ()"
      "sessions (snd (sweep_loop e es s1)) = sessions s"
      "console (snd (sweep_loop e es s1)) = console s"
      "length (heap (snd (sweep_loop e es s1))) = length (heap s)"
      "activeBrokers (snd (sweep_loop e es s1))
         = filter (\<lambda>(k', r'). \<not> (k' \<in> fst ` set es \<and> stale (now e) (sessions s) k'))
             (AList.delete k (activeBrokers s))"
      "\<forall>r'<length (heap s). heap (snd (sweep_loop e es s1)) ! r'
           = (if \<exists>k'. (k', r') \<in> set es \<and> stale (now e) (sessions s) k'
              then snd (disconnect (heap s1 ! r')) else heap s1 ! r')"
      by (simp_all add: s1_def)
    have pool: "filter (\<lambda>(k', r'). \<not> (k' \<in> fst ` set es \<and> stale (now e) (sessions s) k'))
                  (AList.delete k (activeBrokers s))
                 = filter (\<lambda>(k', r'). \<not> (k' \<in> fst ` set (x # es) \<and> stale (now e) (sessions s) k')) (activeBrokers s)"
      using True unfolding AList.delete_eq filter_filter
      by (intro filter_cong) (auto simp: x)
    have objs: "heap (snd (sweep_loop e es s1)) ! r'
           = (if \<exists>k'. (k', r') \<in> set (x # es) \<and> stale (now e) (sessions s) k'
              then snd (disconnect (heap s ! r')) else heap s ! r')" if r': "r' < length (heap s)" for r'
    proof (cases "r' = r")
      case True
      with fresh have "\<not> (\<exists>k'. (k', r') \<in> set es \<and> stale (now e) (sessions s) k')"
        by force
      with IH(6) r' have "heap (snd (sweep_loop e es s1)) ! r' = heap s1 ! r'"
        by auto
      also have "\<dots> = snd (disconnect (heap s ! r))"
        using r True by (simp add: s1_def)
      finally show ?thesis
        using True \<open>stale (now e) (sessions s) k\<close> by (auto simp: x)
    next
      case False
      then have "heap s1 ! r' = heap s ! r'"
        by (simp add: s1_def)
      moreover from False have "(\<exists>k'. (k', r') \<in> set (x # es) \<and> stale (now e) (sessions s) k')
                  \<longleftrightarrow> (\<exists>k'. (k', r') \<in> set es \<and> stale (now e) (sessions s) k')"
        by (auto simp: x)
      ultimately show ?thesis
        using IH(6) r' by auto
    qed
    show ?thesis
      unfolding step using IH(1-4) pool objs by (simp add: IH(5))
  qed
qed

lemma map_of_filter_key:
  "map_of (filter (\<lambda>(k, r). P k) al) k = (if P k then map_of al k else None)"
  by (induction al) auto

lemma distinct_snd_key:
  "distinct (map snd al) \<Longrightarrow> (k, r) \<in> set al \<Longrightarrow> (k', r) \<in> set al \<Longrightarrow> k = k'"
  by (induction al) force+

lemma disconnect_ok_result:
  "disconnect_ok b \<Longrightarrow>
     \<not> isConnected (snd (disconnect b)) \<and> ticker (snd (disconnect b)) = None
     \<and> broker.accessToken (snd (disconnect b)) = None"
  by (auto simp: disconnect_ok_def disconnect_def ticker_call_def split: option.splits)

lemma cleanupExpiredSessions_ok:
  assumes "distinct (map snd (activeBrokers s))"
    and "\<forall>(k, r)\<in>set (activeBrokers s). r < length (heap s)"
    and "\<forall>(k, r)\<in>set (activeBrokers s).
           stale (now e) (sessions s) k \<longrightarrow> disconnect_ok (heap s ! r)"
  shows "fst (cleanupExpiredSessions e s) = Inr Success"
    and "sessions (snd (cleanupExpiredSessions e s)) = expireSessions (now e) (sessions s)"
    and "activeBrokers (snd (cleanupExpiredSessions e s))
           = filter (\<lambda>(k, r). \<not> stale (now e) (sessions s) k) (activeBrokers s)"
    and "\<And>k r. (k, r) \<in> set (activeBrokers s) \<Longrightarrow>
           heap (snd (cleanupExpiredSessions e s)) ! r
             = (if stale (now e) (sessions s) k then snd (disconnect (heap s ! r)) else heap s ! r)"
proof -
  let ?al = "activeBrokers s"
  let ?s0 = "s\<lparr>sessions := expireSessions (now e) (sessions s)\<rparr>"
  let ?run = "sweep_loop e ?al ?s0"
  have h: "heap ?s0 = heap s" and ss: "sessions ?s0 = expireSessions (now e) (sessions s)"
    and c0: "console ?s0 = console s" and a0: "activeBrokers ?s0 = ?al"
    by simp_all
  have p2: "\<forall>(k, r)\<in>set ?al. r < length (heap ?s0)"
    unfolding h by (rule assms(2))
  have p3: "\<forall>(k, r)\<in>set ?al. stale (now e) (sessions ?s0) k \<longrightarrow> disconnect_ok (heap ?s0 ! r)"
    unfolding h ss stale_expire by (rule assms(3))
  note L = sweep_loop_ok [OF assms(1) p2 p3, unfolded h ss stale_expire a0]
  from L have 1: "fst ?run = Inr ()"
    and 2: "sessions (snd ?run) = expireSessions (now e) (sessions s)"
    and 5: "activeBrokers (snd ?run)
             = filter (\<lambda>(k, r). \<not> (k \<in> fst ` set ?al \<and> stale (now e) (sessions s) k)) ?al"
    and 6: "\<forall>r<length (heap s). heap (snd ?run) ! r
           = (if \<exists>k. (k, r) \<in> set ?al \<and> stale (now e) (sessions s) k
              then snd (disconnect (heap s ! r)) else heap s ! r)"
    by blast+
  have out: "cleanupExpiredSessions e s = (Inr Success, snd ?run)"
    using 1 by (cases ?run) (simp add: cleanupExpiredSessions_def Let_def)
  show "fst (cleanupExpiredSessions e s) = Inr Success"
    unfolding out by simp
  show "sessions (snd (cleanupExpiredSessions e s)) = expireSessions (now e) (sessions s)"
    unfolding out using 2 by simp
  have "filter (\<lambda>(k, r). \<not> (k \<in> fst ` set ?al \<and> stale (now e) (sessions s) k)) ?al
        = filter (\<lambda>(k, r). \<not> stale (now e) (sessions s) k) ?al"
    by (rule filter_cong [OF refl]) force
  with 5 show "activeBrokers (snd (cleanupExpiredSessions e s))
           = filter (\<lambda>(k, r). \<not> stale (now e) (sessions s) k) (activeBrokers s)"
    unfolding out by simp
  fix k r
  assume kr: "(k, r) \<in> set ?al"
  with assms(2) have r: "r < length (heap s)"
    by blast
  from kr distinct_snd_key [OF assms(1) kr]
  have "(\<exists>k'. (k', r) \<in> set ?al \<and> stale (now e) (sessions s) k')
          \<longleftrightarrow> stale (now e) (sessions s) k"
    by blast
  with 6 r show "heap (snd (cleanupExpiredSessions e s)) ! r
             = (if stale (now e) (sessions s) k then snd (disconnect (heap s ! r)) else heap s ! r)"
    unfolding out by simp
qed

text \<open>
  Claim C3 says that for every state of the cache and of the store the sweep evicts
  exactly the brokers whose session is missing, inactive or expired. The code evicts a
  broker only after its \<^verbatim>\<open>disconnect()\<close> has returned. Here the one cached broker has
  an expired session and a ticker whose disconnect throws: after the sweep it is still
  cached, still connected and still holds its ticker.
\<close>

theorem sweep_keeps_expired_counterexample:
  "stale (now demo_env) (sessions expired_stuck_service) ''64b7f0c2_zerodha''
   \<and> activeBrokers (snd (cleanupExpiredSessions demo_env expired_stuck_service))
       = [(''64b7f0c2_zerodha'', 0)]
   \<and> isConnected (heap (snd (cleanupExpiredSessions demo_env expired_stuck_service)) ! 0)
   \<and> ticker (heap (snd (cleanupExpiredSessions demo_env expired_stuck_service)) ! 0)
       = Some faulty_ticker"
  by code_simp

text \<open>
  Claim C3, amended. For every state of the cache and of the store in which the
  disconnect of no stale broker throws (each cached key having its own broker object),
  the sweep succeeds and evicts exactly the brokers whose key is stale: the cache keeps
  the entries that are not stale, in their order; every stale broker is disconnected
  (not connected, no ticker, no token) and no longer cached; every other cached broker
  is untouched and still cached. A key made of a user id and a broker type without
  \<^verbatim>\<open>_\<close> is stale exactly when every session of that user and broker type in the store
  is inactive or expired, in particular when there is none.
\<close>

theorem sweep_evicts_stale:
  assumes "distinct (map snd (activeBrokers s))"
    and "\<forall>(k, r)\<in>set (activeBrokers s). r < length (heap s)"
    and "\<forall>(k, r)\<in>set (activeBrokers s).
           stale (now e) (sessions s) k \<longrightarrow> disconnect_ok (heap s ! r)"
  shows "fst (cleanupExpiredSessions e s) = Inr Success
     \<and> activeBrokers (snd (cleanupExpiredSessions e s))
         = filter (\<lambda>(k, r). \<not> stale (now e) (sessions s) k) (activeBrokers s)
     \<and> (\<forall>(k, r)\<in>set (activeBrokers s).
          if stale (now e) (sessions s) k
          then \<not> isConnected (heap (snd (cleanupExpiredSessions e s)) ! r)
               \<and> ticker (heap (snd (cleanupExpiredSessions e s)) ! r) = None
               \<and> broker.accessToken (heap (snd (cleanupExpiredSessions e s)) ! r) = None
               \<and> map_of (activeBrokers (snd (cleanupExpiredSessions e s))) k = None
          else heap (snd (cleanupExpiredSessions e s)) ! r = heap s ! r
               \<and> map_of (activeBrokers (snd (cleanupExpiredSessions e s))) k
                   = map_of (activeBrokers s) k)
     \<and> (\<forall>u bt. CHR ''_'' \<notin> set u \<and> CHR ''_'' \<notin> set bt \<longrightarrow>
          (stale (now e) (sessions s) (sessionKey u bt) \<longleftrightarrow>
             (\<forall>x\<in>set (sessions s). userId x = u \<and> brokerType x = bt \<longrightarrow>
                \<not> isActive x \<or> expiresAt x \<le> now e)))"
proof (intro conjI)
  note C = cleanupExpiredSessions_ok [OF assms]
  show "fst (cleanupExpiredSessions e s) = Inr Success"
    by (rule C(1))
  show "activeBrokers (snd (cleanupExpiredSessions e s))
         = filter (\<lambda>(k, r). \<not> stale (now e) (sessions s) k) (activeBrokers s)"
    by (rule C(3))
  show "\<forall>(k, r)\<in>set (activeBrokers s).
          if stale (now e) (sessions s) k
          then \<not> isConnected (heap (snd (cleanupExpiredSessions e s)) ! r)
               \<and> ticker (heap (snd (cleanupExpiredSessions e s)) ! r) = None
               \<and> broker.accessToken (heap (snd (cleanupExpiredSessions e s)) ! r) = None
               \<and> map_of (activeBrokers (snd (cleanupExpiredSessions e s))) k = None
          else heap (snd (cleanupExpiredSessions e s)) ! r = heap s ! r
               \<and> map_of (activeBrokers (snd (cleanupExpiredSessions e s))) k
                   = map_of (activeBrokers s) k"
  proof (intro ballI, clarify)
    fix k r
    assume kr: "(k, r) \<in> set (activeBrokers s)"
    show "if stale (now e) (sessions s) k
          then \<not> isConnected (heap (snd (cleanupExpiredSessions e s)) ! r)
               \<and> ticker (heap (snd (cleanupExpiredSessions e s)) ! r) = None
               \<and> broker.accessToken (heap (snd (cleanupExpiredSessions e s)) ! r) = None
               \<and> map_of (activeBrokers (snd (cleanupExpiredSessions e s))) k = None
          else heap (snd (cleanupExpiredSessions e s)) ! r = heap s ! r
               \<and> map_of (activeBrokers (snd (cleanupExpiredSessions e s))) k
                   = map_of (activeBrokers s) k"
    proof (cases "stale (now e) (sessions s) k")
      case True
      with assms(3) kr have "disconnect_ok (heap s ! r)"
        by blast
      from disconnect_ok_result [OF this] True show ?thesis
        by (simp add: C(4) [OF kr] C(3) map_of_filter_key)
    next
      case False
      then show ?thesis
        by (simp add: C(4) [OF kr] C(3) map_of_filter_key)
    qed
  qed
  show "\<forall>u bt. CHR ''_'' \<notin> set u \<and> CHR ''_'' \<notin> set bt \<longrightarrow>
          (stale (now e) (sessions s) (sessionKey u bt) \<longleftrightarrow>
             (\<forall>x\<in>set (sessions s). userId x = u \<and> brokerType x = bt \<longrightarrow>
                \<not> isActive x \<or> expiresAt x \<le> now e))"
    by (simp add: stale_def session_of_key_sessionKey findActiveSession_None)
qed

theorem sweep_evicts_stale_witness:
  "fst (cleanupExpiredSessions demo_env mixed_service) = Inr Success
   \<and> activeBrokers (snd (cleanupExpiredSessions demo_env mixed_service))
       = [(''64b7f0c2_zerodha'', 0)]
   \<and> heap (snd (cleanupExpiredSessions demo_env mixed_service)) ! 0 = streaming_broker
   \<and> \<not> isConnected (heap (snd (cleanupExpiredSessions demo_env mixed_service)) ! 1)
   \<and> \<not> isConnected (heap (snd (cleanupExpiredSessions demo_env mixed_service)) ! 2)
   \<and> ticker (heap (snd (cleanupExpiredSessions demo_env mixed_service)) ! 2) = None"
proof -
  have a: "distinct (map snd (activeBrokers mixed_service))"
    by (simp add: mixed_service_def)
  have b: "\<forall>(k, r)\<in>set (activeBrokers mixed_service). r < length (heap mixed_service)"
    by (simp add: mixed_service_def)
  have c: "\<forall>(k, r)\<in>set (activeBrokers mixed_service).
             stale (now demo_env) (sessions mixed_service) k
               \<longrightarrow> disconnect_ok (heap mixed_service ! r)"
    by (simp add: mixed_service_def disconnect_ok_def streaming_broker_def
        connected_broker_def working_ticker_def)
  have d: "\<not> stale (now demo_env) (sessions mixed_service) ''64b7f0c2_zerodha''"
    "stale (now demo_env) (sessions mixed_service) ''5f1d9e3a_zerodha''"
    "stale (now demo_env) (sessions mixed_service) ''7a2c4b10_zerodha''"
    by code_simp+
  have f: "activeBrokers mixed_service
             = [(''64b7f0c2_zerodha'', 0), (''5f1d9e3a_zerodha'', 1), (''7a2c4b10_zerodha'', 2)]"
    by (simp add: mixed_service_def)
  have g: "heap mixed_service ! 0 = streaming_broker"
    by (simp add: mixed_service_def)
  from sweep_evicts_stale [OF a b c] show ?thesis
    unfolding f by (simp add: d g)
qed






section \<open>TradingServer: shutdown\<close>







lemma exit_of_bound:
  assumes "exit_of deadline finish = ((tx, code), forced)"
  shows "tx \<le> deadline"
    and "forced \<Longrightarrow> tx = deadline"
    and "\<not> forced \<Longrightarrow> finish = Some (tx, code)"
  using assms by (auto simp: exit_of_def split: option.splits if_splits)

lemma gracefulShutdown_running:
  assumes "\<not> shuttingDown p"
    and "shutdown_try env t = (finish, out)"
    and "exit_of (t + globalTimeout) finish = ((tx, code), forced)"
  shows "gracefulShutdown env reason t p
           = p\<lparr>shuttingDown := True,
               exit_at := Some (tx, code),
               printed :=
                 printed p @ [(t, ''initiating graceful shutdown: '' @ reason)]
                 @ (if forced
                    then filter (\<lambda>(tl, msg). tl < tx) out @ [(tx, ''forced exit after timeout'')]
                    else filter (\<lambda>(tl, msg). tl \<le> tx) out)\<rparr>"
  using assms by (simp add: gracefulShutdown_def)

lemma gracefulShutdown_exit:
  assumes "\<not> shuttingDown p"
  shows "\<exists>tx code. exit_at (gracefulShutdown env reason t p) = Some (tx, code)
           \<and> tx \<le> t + globalTimeout"
    and "shuttingDown (gracefulShutdown env reason t p)"
proof -
  obtain finish out where tr: "shutdown_try env t = (finish, out)"
    by (cases "shutdown_try env t")
  obtain tx code forced where ex: "exit_of (t + globalTimeout) finish = ((tx, code), forced)"
    by (metis prod.exhaust)
  note gs = gracefulShutdown_running [OF assms tr ex]
  from exit_of_bound(1) [OF ex]
  show "\<exists>tx code. exit_at (gracefulShutdown env reason t p) = Some (tx, code)
           \<and> tx \<le> t + globalTimeout"
    by (simp add: gs)
  show "shuttingDown (gracefulShutdown env reason t p)"
    by (simp add: gs)
qed





section \<open>TradingServer: GET /api\<close>

text \<open>
  Claim C10. A request to \<^verbatim>\<open>GET /api\<close> served at time \<open>t\<close> by a process that is
  running is answered with the description of the API, and the promise the handler
  leaves behind is rejected 10 ms later with no handler attached. The
  \<^verbatim>\<open>unhandledRejection\<close> hook then starts the graceful shutdown: the process is
  shutting down from \<open>t + 10\<close> on and ends at most 8000 ms after that.
\<close>

theorem api_request_shuts_down:
  assumes "\<not> shuttingDown p"
  shows "fst (serve_api env t p)
           = \<lparr>name = ''Trading API'', version = ''1.0.0'',
              description = ''Multi-broker trading application with extensible architecture'',
              supportedBrokers = [''zerodha'']\<rparr>
     \<and> snd (get_api t) = Some (t + 10, Rejected ''undefined'')
     \<and> snd (serve_api env t p) = unhandledRejection env (t + 10) p
     \<and> shuttingDown (snd (serve_api env t p))
     \<and> (\<exists>tx code. exit_at (snd (serve_api env t p)) = Some (tx, code) \<and> tx \<le> t + 10 + 8000)
     \<and> (t + 10, ''initiating graceful shutdown: unhandledRejection'')
          \<in> set (printed (snd (serve_api env t p)))"
proof -
  let ?p = "p\<lparr>printed := printed p @ [(t + 10, ''unhandledRejection'')]\<rparr>"
  have run: "\<not> shuttingDown ?p"
    using assms by simp
  have s: "snd (serve_api env t p) = gracefulShutdown env ''unhandledRejection'' (t + 10) ?p"
    by (simp add: serve_api_def get_api_def unhandledRejection_def)
  obtain finish out where tr: "shutdown_try env (t + 10) = (finish, out)"
    by (cases "shutdown_try env (t + 10)")
  obtain tx code forced where ex: "exit_of (t + 10 + globalTimeout) finish = ((tx, code), forced)"
    by (metis prod.exhaust)
  have line: "(t + 10, ''initiating graceful shutdown: unhandledRejection'')
          \<in> set (printed (snd (serve_api env t p)))"
    unfolding s gracefulShutdown_running [OF run tr ex] by simp
  from gracefulShutdown_exit [OF run, where env = env and reason = "''unhandledRejection''"
                                 and t = "t + 10"] line
  show ?thesis
    by (simp add: s globalTimeout_def)
       (simp add: serve_api_def get_api_def unhandledRejection_def)
qed

theorem api_request_shuts_down_witness:
  "shuttingDown (snd (serve_api hanging_database 100 running))
   \<and> exit_at (snd (serve_api hanging_database 100 running)) = Some (5110, 0)
   \<and> (\<exists>tx code. exit_at (snd (serve_api hanging_close 100 running)) = Some (tx, code)
         \<and> tx \<le> 8110)"
proof -
  have a: "\<not> shuttingDown running"
    by (simp add: running_def)
  have b: "exit_at (snd (serve_api hanging_database 100 running)) = Some (5110, 0)"
    by code_simp
  from api_request_shuts_down [OF a, where env = hanging_database and t = 100]
  have 1: "shuttingDown (snd (serve_api hanging_database 100 running))"
    by blast
  from api_request_shuts_down [OF a, where env = hanging_close and t = 100]
  have "\<exists>tx code. exit_at (snd (serve_api hanging_close 100 running)) = Some (tx, code)
         \<and> tx \<le> 100 + 10 + 8000"
    by blast
  then have 2: "\<exists>tx code. exit_at (snd (serve_api hanging_close 100 running)) = Some (tx, code)
         \<and> tx \<le> 8110"
    by simp
  from 1 2 b show ?thesis
    by blast
qed

end
